theory Spec2Isabelle
  imports Main
begin

section \<open>HTTP data\<close>

text \<open>
  A request as the handlers of the wrapper see it: method, protocol version, the
  escaped URL path (\<^verbatim>\<open>r.URL.EscapedPath()\<close>), the raw query, the header map
  (\<^verbatim>\<open>http.Header\<close> is \<^verbatim>\<open>map[string][]string\<close>) and the body.
  A response is what a handler has written to its \<^verbatim>\<open>ResponseWriter\<close>:
  status code, headers set, and body bytes.
\<close>

record Request =
  req_method :: string
  req_proto :: "nat \<times> nat"
  req_path :: string
  req_query :: string
  req_header :: "string \<rightharpoonup> string list"
  req_body :: string

record Response =
  resp_status :: nat
  resp_header :: "(string \<times> string) list"
  resp_body :: string

text \<open>
  A handler runs against the state \<open>'st\<close> of everything downstream of it (the MCP
  sessions and whatever they drive) and returns the response with the new state.
\<close>

type_synonym 'st Handler = "Request \<Rightarrow> 'st \<Rightarrow> Response \<times> 'st"

definition StatusOK :: nat where
  "StatusOK = 200"

definition StatusMovedPermanently :: nat where
  "StatusMovedPermanently = 301"

definition StatusBadRequest :: nat where
  "StatusBadRequest = 400"

definition StatusUnauthorized :: nat where
  "StatusUnauthorized = 401"

definition StatusNotFound :: nat where
  "StatusNotFound = 404"

text \<open>\<^verbatim>\<open>Header.Get\<close>: the first value stored under the key, or the empty string.\<close>

definition Header_Get :: "(string \<rightharpoonup> string list) \<Rightarrow> string \<Rightarrow> string" where
  "Header_Get h key = (case h key of None \<Rightarrow> [] | Some [] \<Rightarrow> [] | Some (v # _) \<Rightarrow> v)"

text \<open>
  \<^verbatim>\<open>http.Error(w, msg, code)\<close>: plain-text content type, the status code, and the
  message followed by a newline (\<^verbatim>\<open>fmt.Fprintln\<close>).
\<close>

definition http_Error :: "string \<Rightarrow> nat \<Rightarrow> Response" where
  "http_Error msg code =
     \<lparr>resp_status = code,
      resp_header = [(''Content-Type'', ''text/plain; charset=utf-8''),
                     (''X-Content-Type-Options'', ''nosniff'')],
      resp_body = msg @ [CHR 0x0A]\<rparr>"

text \<open>JSON text: a string in double quotes, and the one-field object of the error bodies.\<close>

definition quoted :: "string \<Rightarrow> string" where
  "quoted s = [CHR 0x22] @ s @ [CHR 0x22]"

definition error_json :: "string \<Rightarrow> string" where
  "error_json msg = ''{'' @ quoted ''error'' @ '':'' @ quoted msg @ ''}''"

section \<open>Paths and URLs\<close>

text \<open>
  The library functions on paths that \<^verbatim>\<open>os/exec\<close> and \<^verbatim>\<open>net/http\<close> apply to the
  program name and to the request path. \<^verbatim>\<open>strings.Split(s, "/")\<close> and its inverse:
\<close>

fun split_on :: "char \<Rightarrow> string \<Rightarrow> string list" where
  "split_on c [] = [[]]"
| "split_on c (x # xs) =
     (if x = c then [] # split_on c xs
      else case split_on c xs of [] \<Rightarrow> [[x]] | y # ys \<Rightarrow> (x # y) # ys)"

fun join_slash :: "string list \<Rightarrow> string" where
  "join_slash [] = []"
| "join_slash [x] = x"
| "join_slash (x # y # ys) = x @ ''/'' @ join_slash (y # ys)"

definition HasSuffix_slash :: "string \<Rightarrow> bool" where
  "HasSuffix_slash s = (s \<noteq> [] \<and> last s = CHR ''/'')"

definition Count_slash :: "string \<Rightarrow> nat" where
  "Count_slash s = length (filter (\<lambda>c. c = CHR ''/'') s)"

text \<open>
  \<^verbatim>\<open>path.Clean\<close> (and \<^verbatim>\<open>filepath.Clean\<close> on Unix), element by element: empty
  elements and \<^verbatim>\<open>.\<close> are dropped; \<^verbatim>\<open>..\<close> removes the element before it, is
  dropped at the root of a rooted path, and is kept at the front of an unrooted
  one. \<open>out\<close> holds the elements written so far, the last one first.
\<close>

fun clean_elems :: "bool \<Rightarrow> string list \<Rightarrow> string list \<Rightarrow> string list" where
  "clean_elems rooted [] out = out"
| "clean_elems rooted (e # es) out =
     (if e = [] \<or> e = ''.'' then clean_elems rooted es out
      else if e = ''..'' then
        (if out \<noteq> [] \<and> hd out \<noteq> ''..'' then clean_elems rooted es (tl out)
         else if \<not> rooted then clean_elems rooted es (''..'' # out)
         else clean_elems rooted es out)
      else clean_elems rooted es (e # out))"

definition path_Clean :: "string \<Rightarrow> string" where
  "path_Clean path =
     (if path = [] then ''.''
      else
        let rooted = (hd path = CHR ''/'');
            out = join_slash (rev (clean_elems rooted (split_on (CHR ''/'') path) []))
        in if rooted then ''/'' @ out
           else if out = [] then ''.''
           else out)"

text \<open>
  \<^verbatim>\<open>filepath.Base\<close>: the last element of the path, after trailing slashes are
  removed; \<^verbatim>\<open>.\<close> for the empty path and \<^verbatim>\<open>/\<close> for a path of slashes only.
\<close>

definition filepath_Base :: "string \<Rightarrow> string" where
  "filepath_Base path =
     (if path = [] then ''.''
      else
        let stripped = rev (dropWhile (\<lambda>c. c = CHR ''/'') (rev path));
            elem = rev (takeWhile (\<lambda>c. c \<noteq> CHR ''/'') (rev stripped))
        in if elem = [] then ''/'' else elem)"

text \<open>
  Percent-encoding as \<^verbatim>\<open>net/url\<close> does it. \<^verbatim>\<open>pathUnescape\<close> of \<^verbatim>\<open>net/http\<close> decodes
  every \<^verbatim>\<open>%XX\<close> and returns its argument unchanged when some \<^verbatim>\<open>%\<close> is not followed
  by two hexadecimal digits. \<open>escape_path\<close> is \<^verbatim>\<open>escape(s, encodePath)\<close>.
\<close>

definition ishex :: "char \<Rightarrow> bool" where
  "ishex c =
     (let n = (of_char c :: nat)
      in (48 \<le> n \<and> n \<le> 57) \<or> (97 \<le> n \<and> n \<le> 102) \<or> (65 \<le> n \<and> n \<le> 70))"

definition unhex :: "char \<Rightarrow> nat" where
  "unhex c =
     (let n = (of_char c :: nat)
      in if 48 \<le> n \<and> n \<le> 57 then n - 48
         else if 97 \<le> n \<and> n \<le> 102 then n - 97 + 10
         else if 65 \<le> n \<and> n \<le> 70 then n - 65 + 10
         else 0)"

fun valid_escapes :: "string \<Rightarrow> bool" where
  "valid_escapes (c # a # b # rest) =
     (if c = CHR ''%'' then ishex a \<and> ishex b \<and> valid_escapes rest
      else valid_escapes (a # b # rest))"
| "valid_escapes (c # cs) = (c \<noteq> CHR ''%'' \<and> valid_escapes cs)"
| "valid_escapes [] = True"

fun unescape_bytes :: "string \<Rightarrow> string" where
  "unescape_bytes (c # a # b # rest) =
     (if c = CHR ''%'' then char_of (unhex a * 16 + unhex b) # unescape_bytes rest
      else c # unescape_bytes (a # b # rest))"
| "unescape_bytes (c # cs) = c # unescape_bytes cs"
| "unescape_bytes [] = []"

definition pathUnescape :: "string \<Rightarrow> string" where
  "pathUnescape s = (if valid_escapes s then unescape_bytes s else s)"

definition shouldEscape_path :: "char \<Rightarrow> bool" where
  "shouldEscape_path c =
     (let n = (of_char c :: nat)
      in \<not> ((97 \<le> n \<and> n \<le> 122) \<or> (65 \<le> n \<and> n \<le> 90) \<or> (48 \<le> n \<and> n \<le> 57)
           \<or> c \<in> set ''-_.~'' \<or> c \<in> set ''$&+,/:;=@''))"

definition hex_byte :: "string \<Rightarrow> char \<Rightarrow> string" where
  "hex_byte digits c =
     (let n = (of_char c :: nat) in [CHR ''%'', digits ! (n div 16), digits ! (n mod 16)])"

definition escape_path :: "string \<Rightarrow> string" where
  "escape_path s =
     concat (map (\<lambda>c. if shouldEscape_path c then hex_byte ''0123456789ABCDEF'' c else [c]) s)"

text \<open>
  \<^verbatim>\<open>hexEscapeNonASCII\<close> and \<^verbatim>\<open>htmlEscape\<close> of \<^verbatim>\<open>net/http\<close>, which \<^verbatim>\<open>http.Redirect\<close>
  applies to the target.
\<close>

definition hexEscapeNonASCII :: "string \<Rightarrow> string" where
  "hexEscapeNonASCII s =
     concat (map (\<lambda>c. if 128 \<le> (of_char c :: nat) then hex_byte ''0123456789abcdef'' c else [c]) s)"

definition htmlEscape :: "string \<Rightarrow> string" where
  "htmlEscape s =
     concat (map (\<lambda>c. if c = CHR ''&'' then ''&amp;''
                       else if c = CHR ''<'' then ''&lt;''
                       else if c = CHR ''>'' then ''&gt;''
                       else if c = CHR 0x22 then ''&#34;''
                       else if c = CHR 0x27 then ''&#39;''
                       else [c]) s)"

section \<open>internal/auth: the bearer-token middleware\<close>

text \<open>
  \<^verbatim>\<open>strings.Index\<close> and \<^verbatim>\<open>strings.SplitN\<close> for a one-byte separator, which is how
  the middleware calls them (\<^verbatim>\<open>strings.SplitN(authHeader, " ", 2)\<close>): at most \<open>n\<close>
  pieces, the last one holding the unsplit rest.
\<close>

fun IndexByte :: "string \<Rightarrow> char \<Rightarrow> nat option" where
  "IndexByte [] c = None"
| "IndexByte (x # xs) c = (if x = c then Some 0 else map_option Suc (IndexByte xs c))"

fun SplitN :: "string \<Rightarrow> char \<Rightarrow> nat \<Rightarrow> string list" where
  "SplitN s c 0 = []"
| "SplitN s c (Suc 0) = [s]"
| "SplitN s c (Suc (Suc k)) =
     (case IndexByte s c of
        None \<Rightarrow> [s]
      | Some m \<Rightarrow> take m s # SplitN (drop (Suc m) s) c (Suc k))"

text \<open>
  \<^verbatim>\<open>NewAuthMiddleware(expectedToken)(next)\<close>. The three early returns answer with
  \<^verbatim>\<open>http.Error\<close> and leave the downstream state alone; the last line hands the
  request to \<open>next\<close>.
\<close>

definition NewAuthMiddleware :: "string \<Rightarrow> 'st Handler \<Rightarrow> 'st Handler" where
  "NewAuthMiddleware expectedToken next r st =
     (let authHeader = Header_Get (req_header r) ''Authorization'' in
      if authHeader = [] then
        (http_Error (error_json ''missing authorization header'') StatusUnauthorized, st)
      else
        let parts = SplitN authHeader (CHR '' '') 2 in
        if length parts \<noteq> 2 \<or> parts ! 0 \<noteq> ''Bearer'' then
          (http_Error (error_json ''invalid authorization format'') StatusUnauthorized, st)
        else if parts ! 1 \<noteq> expectedToken then
          (http_Error (error_json ''invalid token'') StatusUnauthorized, st)
        else next r st)"

text \<open>
  A wrapped handler that records what it is given: \<open>logged next\<close> behaves as
  \<open>next\<close> and appends each request it receives to a log kept beside the state.
\<close>

definition logged :: "'st Handler \<Rightarrow> (Request list \<times> 'st) Handler" where
  "logged next r = (\<lambda>(log, st). case next r st of (resp, st') \<Rightarrow> (resp, (log @ [r], st')))"

section \<open>internal/config: configuration from the environment\<close>

record Config =
  PortainerURL :: string
  PortainerAPIToken :: string
  MCPAccessToken :: string
  MCPPort :: int
  MCPToolsFile :: string
  DisableVersionCheck :: bool
  ReadOnlyMode :: bool
  MCPBinaryPath :: string

text \<open>
  The process environment is a map from names to values; \<^verbatim>\<open>os.Getenv\<close> returns the
  empty string for a name that is not set.
\<close>

type_synonym Env = "string \<rightharpoonup> string"

definition Getenv :: "Env \<Rightarrow> string \<Rightarrow> string" where
  "Getenv env key = (case env key of None \<Rightarrow> [] | Some v \<Rightarrow> v)"

text \<open>
  \<^verbatim>\<open>strconv.Atoi\<close>: an optional sign, then one or more decimal digits, and the value
  must fit the 64-bit \<^verbatim>\<open>int\<close>; anything else is an error (\<open>None\<close>).
  \<^verbatim>\<open>strconv.ParseBool\<close> accepts exactly twelve spellings.
\<close>

definition digit_val :: "char \<Rightarrow> nat option" where
  "digit_val ch =
     (let n = (of_char ch :: nat) in if 48 \<le> n \<and> n \<le> 57 then Some (n - 48) else None)"

fun digits_val :: "string \<Rightarrow> nat \<Rightarrow> nat option" where
  "digits_val [] n = Some n"
| "digits_val (ch # cs) n =
     (case digit_val ch of None \<Rightarrow> None | Some d \<Rightarrow> digits_val cs (n * 10 + d))"

definition Atoi :: "string \<Rightarrow> int option" where
  "Atoi s =
     (if s = [] then None
      else
        let neg = (hd s = CHR ''-'');
            ds = (if hd s = CHR ''-'' \<or> hd s = CHR ''+'' then tl s else s)
        in if ds = [] then None
           else case digits_val ds 0 of
                  None \<Rightarrow> None
                | Some n \<Rightarrow>
                    let v = (if neg then - int n else int n)
                    in if - (2 ^ 63) \<le> v \<and> v \<le> 2 ^ 63 - 1 then Some v else None)"

definition ParseBool :: "string \<Rightarrow> bool option" where
  "ParseBool s =
     (if s \<in> set [''1'', ''t'', ''T'', ''true'', ''TRUE'', ''True''] then Some True
      else if s \<in> set [''0'', ''f'', ''F'', ''false'', ''FALSE'', ''False''] then Some False
      else None)"

definition getEnvOrDefault :: "Env \<Rightarrow> string \<Rightarrow> string \<Rightarrow> string" where
  "getEnvOrDefault env key defaultVal =
     (let val = Getenv env key in if val \<noteq> [] then val else defaultVal)"

definition getEnvAsIntOrDefault :: "Env \<Rightarrow> string \<Rightarrow> int \<Rightarrow> int" where
  "getEnvAsIntOrDefault env key defaultVal =
     (let val = Getenv env key in
      if val \<noteq> [] then (case Atoi val of Some intVal \<Rightarrow> intVal | None \<Rightarrow> defaultVal)
      else defaultVal)"

definition getEnvAsBoolOrDefault :: "Env \<Rightarrow> string \<Rightarrow> bool \<Rightarrow> bool" where
  "getEnvAsBoolOrDefault env key defaultVal =
     (let val = Getenv env key in
      if val \<noteq> [] then (case ParseBool val of Some boolVal \<Rightarrow> boolVal | None \<Rightarrow> defaultVal)
      else defaultVal)"

text \<open>\<^verbatim>\<open>LoadConfig\<close>: the error is the message of \<^verbatim>\<open>fmt.Errorf\<close>.\<close>

definition LoadConfig :: "Env \<Rightarrow> string + Config" where
  "LoadConfig env =
     (let cfg =
        \<lparr>PortainerURL = getEnvOrDefault env ''PORTAINER_URL'' ''http://portainer:9000'',
         PortainerAPIToken = Getenv env ''PORTAINER_API_TOKEN'',
         MCPAccessToken = Getenv env ''MCP_ACCESS_TOKEN'',
         MCPPort = getEnvAsIntOrDefault env ''MCP_PORT'' 8080,
         MCPToolsFile = Getenv env ''MCP_TOOLS_FILE'',
         DisableVersionCheck = getEnvAsBoolOrDefault env ''DISABLE_VERSION_CHECK'' False,
         ReadOnlyMode = getEnvAsBoolOrDefault env ''READ_ONLY_MODE'' False,
         MCPBinaryPath = getEnvOrDefault env ''MCP_BINARY_PATH'' ''/app/portainer-mcp''\<rparr>
      in if PortainerAPIToken cfg = [] then Inl ''PORTAINER_API_TOKEN is required''
         else if MCPAccessToken cfg = [] then Inl ''MCP_ACCESS_TOKEN is required''
         else Inr cfg)"

text \<open>A name is unset or empty in the environment.\<close>

definition unset_or_empty :: "Env \<Rightarrow> string \<Rightarrow> bool" where
  "unset_or_empty env key = (env key = None \<or> env key = Some [])"

section \<open>internal/bridge: the command for the Portainer MCP binary\<close>

text \<open>
  The operating system as \<^verbatim>\<open>os/exec\<close> sees it: the paths of the files that can be
  executed, the directories of \<^verbatim>\<open>$PATH\<close>, whether \<^verbatim>\<open>os.Pipe\<close> succeeds, and the
  commands started so far. The errors of \<^verbatim>\<open>os/exec\<close> are told apart by what failed,
  not by their text.
\<close>

datatype exec_error =
    LookPathFailed string
  | LookPathDot string
  | NoCommand
  | PipeFailed
  | StartFailed string

record Cmd =
  cmd_Path :: string
  cmd_Args :: "string list"
  cmd_Err :: "exec_error option"

record OS =
  executables :: "string list"
  path_dirs :: "string list"
  pipe_ok :: bool
  running :: "Cmd list"

text \<open>
  \<^verbatim>\<open>exec.LookPath\<close> (Unix): a name with a slash is tried as it is; any other name
  is looked for in each directory of \<^verbatim>\<open>$PATH\<close> in turn, an empty entry standing
  for the current directory, and a hit that is not an absolute path is returned with
  the error \<^verbatim>\<open>ErrDot\<close>.
\<close>

fun LookPath_dirs :: "string list \<Rightarrow> string list \<Rightarrow> string \<Rightarrow> string \<times> exec_error option" where
  "LookPath_dirs exes [] file = ([], Some (LookPathFailed file))"
| "LookPath_dirs exes (dir # dirs) file =
     (let dir' = (if dir = [] then ''.'' else dir);
          path = path_Clean (dir' @ ''/'' @ file)
      in if path \<in> set exes then
           (if hd path \<noteq> CHR ''/'' then (path, Some (LookPathDot file)) else (path, None))
         else LookPath_dirs exes dirs file)"

definition LookPath :: "OS \<Rightarrow> string \<Rightarrow> string \<times> exec_error option" where
  "LookPath os file =
     (if CHR ''/'' \<in> set file then
        (if file \<in> set (executables os) then (file, None) else ([], Some (LookPathFailed file)))
      else LookPath_dirs (executables os) (path_dirs os) file)"

text \<open>
  \<^verbatim>\<open>exec.Command(name, arg...)\<close> (and \<^verbatim>\<open>exec.CommandContext\<close>, which adds the
  context): the argument vector starts with the name; a name that is its own base
  name is resolved with \<^verbatim>\<open>LookPath\<close>, and the lookup error is kept in the command.
  Constructing a command starts nothing.
\<close>

definition exec_Command :: "OS \<Rightarrow> string \<Rightarrow> string list \<Rightarrow> Cmd" where
  "exec_Command os name arg =
     (let cmd = \<lparr>cmd_Path = name, cmd_Args = name # arg, cmd_Err = None\<rparr>
      in if filepath_Base name = name then
           (case LookPath os name of
              (lp, err) \<Rightarrow> cmd\<lparr>cmd_Path := (if lp \<noteq> [] then lp else name), cmd_Err := err\<rparr>)
         else cmd)"

text \<open>
  \<^verbatim>\<open>cmd.Start()\<close> returns the error kept in the command, fails when the program
  cannot be executed, and adds a process otherwise. \<^verbatim>\<open>cmd.StdinPipe()\<close> and its two
  siblings fail, on a command that has not been started and has no stream set, when
  \<^verbatim>\<open>os.Pipe\<close> does.
\<close>

definition Cmd_Start :: "Cmd \<Rightarrow> OS \<Rightarrow> (exec_error + unit) \<times> OS" where
  "Cmd_Start cmd os =
     (if cmd_Path cmd = [] \<and> cmd_Err cmd = None then (Inl NoCommand, os)
      else case cmd_Err cmd of
             Some err \<Rightarrow> (Inl err, os)
           | None \<Rightarrow>
               if cmd_Path cmd \<in> set (executables os)
               then (Inr (), os\<lparr>running := running os @ [cmd]\<rparr>)
               else (Inl (StartFailed (cmd_Path cmd)), os))"

definition Cmd_Pipe :: "Cmd \<Rightarrow> OS \<Rightarrow> exec_error + unit" where
  "Cmd_Pipe cmd os = (if pipe_ok os then Inr () else Inl PipeFailed)"

text \<open>\<^verbatim>\<open>mcp.Server\<close> as created by \<^verbatim>\<open>mcp.NewServer(impl, &mcp.ServerOptions{})\<close>.\<close>

record Server =
  impl_Name :: string
  impl_Version :: string

definition mcp_NewServer :: "string \<Rightarrow> string \<Rightarrow> Server" where
  "mcp_NewServer name version = \<lparr>impl_Name = name, impl_Version = version\<rparr>"

text \<open>\<^verbatim>\<open>GetPortainerCommand\<close>: each \<^verbatim>\<open>append\<close> in turn.\<close>

definition GetPortainerCommand :: "Config \<Rightarrow> OS \<Rightarrow> Cmd" where
  "GetPortainerCommand cfg os =
     (let args0 = [''--server'', PortainerURL cfg, ''--api-token'', PortainerAPIToken cfg];
          args1 = (if MCPToolsFile cfg \<noteq> [] then args0 @ [''--tools-file'', MCPToolsFile cfg]
                   else args0);
          args2 = (if DisableVersionCheck cfg then args1 @ [''--disable-version-check'']
                   else args1);
          args3 = (if ReadOnlyMode cfg then args2 @ [''--read-only''] else args2)
      in exec_Command os (MCPBinaryPath cfg) args3)"

text \<open>
  \<^verbatim>\<open>CreateMCPServer\<close>. Its local \<^verbatim>\<open>cmd\<close> is built the same way and then dropped
  (\<^verbatim>\<open>_ = cmd\<close>): the function never starts it, returns the new server, and its error
  result is always nil. \<open>CreateMCPServer_cmd\<close> is that local variable.
\<close>

definition CreateMCPServer_cmd :: "Config \<Rightarrow> OS \<Rightarrow> Cmd" where
  "CreateMCPServer_cmd cfg os =
     (let args0 = [''--server'', PortainerURL cfg, ''--api-token'', PortainerAPIToken cfg];
          args1 = (if MCPToolsFile cfg \<noteq> [] then args0 @ [''--tools-file'', MCPToolsFile cfg]
                   else args0);
          args2 = (if DisableVersionCheck cfg then args1 @ [''--disable-version-check'']
                   else args1);
          args3 = (if ReadOnlyMode cfg then args2 @ [''--read-only''] else args2)
      in exec_Command os (MCPBinaryPath cfg) args3)"

definition CreateMCPServer :: "Config \<Rightarrow> OS \<Rightarrow> (string + Server) \<times> OS" where
  "CreateMCPServer cfg os =
     (let cmd = CreateMCPServer_cmd cfg os;
          server = mcp_NewServer ''portainer-mcp-wrapper'' ''1.0.0''
      in (Inr server, os))"

text \<open>
  The bridge constructor of the repository's design notes (docs/04-code-examples.md,
  \<^verbatim>\<open>NewPortainerMCPBridge\<close>): the same arguments, the three pipes, then the start;
  each error is returned wrapped in the message of its \<^verbatim>\<open>fmt.Errorf\<close>.
\<close>

datatype bridge_error = Wrapped string exec_error

definition NewPortainerMCPBridge :: "Config \<Rightarrow> OS \<Rightarrow> (bridge_error + Cmd) \<times> OS" where
  "NewPortainerMCPBridge cfg os =
     (let args0 = [''--server'', PortainerURL cfg, ''--api-token'', PortainerAPIToken cfg];
          args1 = (if MCPToolsFile cfg \<noteq> [] then args0 @ [''--tools-file'', MCPToolsFile cfg]
                   else args0);
          args2 = (if DisableVersionCheck cfg then args1 @ [''--disable-version-check'']
                   else args1);
          args3 = (if ReadOnlyMode cfg then args2 @ [''--read-only''] else args2);
          cmd = exec_Command os (MCPBinaryPath cfg) args3
      in case Cmd_Pipe cmd os of
           Inl err \<Rightarrow> (Inl (Wrapped ''failed to create stdin pipe: '' err), os)
         | Inr _ \<Rightarrow>
        (case Cmd_Pipe cmd os of
           Inl err \<Rightarrow> (Inl (Wrapped ''failed to create stdout pipe: '' err), os)
         | Inr _ \<Rightarrow>
        (case Cmd_Pipe cmd os of
           Inl err \<Rightarrow> (Inl (Wrapped ''failed to create stderr pipe: '' err), os)
         | Inr _ \<Rightarrow>
        (case Cmd_Start cmd os of
           (Inl err, os') \<Rightarrow> (Inl (Wrapped ''failed to start portainer-mcp: '' err), os')
         | (Inr _, os') \<Rightarrow> (Inr cmd, os')))))"

section \<open>cmd/wrapper: routes\<close>

text \<open>
  \<^verbatim>\<open>getServer\<close>, the per-session factory of \<^verbatim>\<open>main\<close>: the request is not passed
  on to \<^verbatim>\<open>CreateMCPServer\<close>; an error gives nil.
\<close>

definition getServer :: "Config \<Rightarrow> Request \<Rightarrow> OS \<Rightarrow> Server option \<times> OS" where
  "getServer cfg req os =
     (case CreateMCPServer cfg os of
        (Inl err, os') \<Rightarrow> (None, os')
      | (Inr server, os') \<Rightarrow> (Some server, os'))"

definition health_body :: string where
  "health_body =
     ''{'' @ quoted ''status'' @ '':'' @ quoted ''healthy'' @ '','' @
     quoted ''service'' @ '':'' @ quoted ''portainer-mcp-wrapper'' @ '','' @
     quoted ''version'' @ '':'' @ quoted ''1.0.0'' @ ''}''"

definition healthCheckHandler :: "'st Handler" where
  "healthCheckHandler r st =
     (\<lparr>resp_status = StatusOK,
       resp_header = [(''Content-Type'', ''application/json'')],
       resp_body = health_body\<rparr>, st)"

text \<open>
  \<^verbatim>\<open>http.ServeMux\<close> (Go 1.22 and later) for patterns that are plain paths, as
  \<^verbatim>\<open>main\<close> registers them: no method, no host, no wildcard. A pattern is its
  literal segments, with a flag for a trailing slash, which matches any rest.
\<close>

type_synonym 'st ServeMux = "(string \<times> 'st Handler) list"

definition NewServeMux :: "'st ServeMux" where
  "NewServeMux = []"

definition Handle :: "'st ServeMux \<Rightarrow> string \<Rightarrow> 'st Handler \<Rightarrow> 'st ServeMux" where
  "Handle mux pat h = mux @ [(pat, h)]"

definition parsePattern :: "string \<Rightarrow> string list \<times> bool" where
  "parsePattern pat =
     (let elems = split_on (CHR ''/'') (tl pat)
      in if last elems = [] then (map pathUnescape (butlast elems), True)
         else (map pathUnescape elems, False))"

text \<open>
  \<^verbatim>\<open>firstSegment\<close> drops the leading slash and cuts at the next one; the segment
  is unescaped, and the path \<^verbatim>\<open>/\<close> gives the segment \<^verbatim>\<open>/\<close>. It is only applied to a
  path that is not empty.
\<close>

definition firstSegment :: "string \<Rightarrow> string \<times> string" where
  "firstSegment path =
     (if path = ''/'' then (''/'', [])
      else
        let path' = tl path;
            i = (case IndexByte path' (CHR ''/'') of None \<Rightarrow> length path' | Some k \<Rightarrow> k)
        in (pathUnescape (take i path'), drop i path'))"

text \<open>
  \<^verbatim>\<open>matchPath\<close> along one pattern: at the end of the literal segments a pattern
  without trailing slash needs the path to be used up, and one with a trailing
  slash needs something to be left.
\<close>

fun match_pattern :: "string list \<Rightarrow> bool \<Rightarrow> string \<Rightarrow> bool" where
  "match_pattern [] multi path = (if multi then path \<noteq> [] else path = [])"
| "match_pattern (s # ss) multi path =
     (path \<noteq> [] \<and>
      (case firstSegment path of (seg, rest) \<Rightarrow> seg = s \<and> match_pattern ss multi rest))"

definition pattern_match :: "string \<Rightarrow> string \<Rightarrow> bool" where
  "pattern_match pat path =
     (case parsePattern pat of (segs, multi) \<Rightarrow> match_pattern segs multi path)"

text \<open>
  The routing tree tries a literal segment before a trailing slash at every node, so
  of the patterns that match it finds the one with the most literal segments.
\<close>

fun mux_match :: "(string \<times> 'h) list \<Rightarrow> string \<Rightarrow> (string \<times> 'h) option" where
  "mux_match [] p = None"
| "mux_match ((pat, h) # es) p =
     (case mux_match es p of
        None \<Rightarrow> if pattern_match pat p then Some (pat, h) else None
      | Some (pat', h') \<Rightarrow>
          if pattern_match pat p
             \<and> length (fst (parsePattern pat')) < length (fst (parsePattern pat))
          then Some (pat, h)
          else Some (pat', h'))"

text \<open>
  \<^verbatim>\<open>cleanPath\<close>: the canonical form of a request path, rooted, with the trailing
  slash kept.
\<close>

definition cleanPath :: "string \<Rightarrow> string" where
  "cleanPath p =
     (if p = [] then ''/''
      else
        let p' = (if hd p \<noteq> CHR ''/'' then ''/'' @ p else p);
            np = path_Clean p'
        in if last p' = CHR ''/'' \<and> np \<noteq> ''/'' then
             (if length p' = length np + 1 \<and> take (length np) p' = np then p' else np @ ''/'')
           else np)"

text \<open>
  \<^verbatim>\<open>exactMatch\<close> and \<^verbatim>\<open>matchOrRedirect\<close>: when the path has no exact match and
  does not end in a slash, but the path with a slash added has one, the mux
  redirects to that. \<open>u\<close> is the decoded path and the raw query of the request URL,
  or nothing when no redirect is to be tried. The target is the \<^verbatim>\<open>String()\<close> of a
  URL made of a path and a query.
\<close>

definition exactMatch :: "(string \<times> 'h) option \<Rightarrow> string \<Rightarrow> bool" where
  "exactMatch n path =
     (case n of
        None \<Rightarrow> False
      | Some (pat, h) \<Rightarrow>
          (case parsePattern pat of
             (segs, multi) \<Rightarrow>
               if \<not> multi then True
               else if path \<noteq> [] \<and> last path \<noteq> CHR ''/'' then False
               else length segs + 1 = Count_slash path))"

definition url_String :: "string \<Rightarrow> string \<Rightarrow> string" where
  "url_String path query =
     (if path = ''*'' then ''*'' else escape_path path)
     @ (if query \<noteq> [] then ''?'' @ query else [])"

definition matchOrRedirect ::
  "(string \<times> 'h) list \<Rightarrow> string \<Rightarrow> (string \<times> string) option
     \<Rightarrow> (string \<times> 'h) option \<times> string option" where
  "matchOrRedirect mux path u =
     (let n = mux_match mux path
      in if \<not> exactMatch n path \<and> u \<noteq> None \<and> \<not> HasSuffix_slash path then
           (let path' = path @ ''/'';
                n2 = mux_match mux path'
            in if exactMatch n2 path' then
                 (case u of
                    Some (upath, uquery) \<Rightarrow>
                      (None, Some (url_String (cleanPath upath @ ''/'') uquery))
                  | None \<Rightarrow> (n, None))
               else (n, None))
         else (n, None))"

text \<open>
  \<^verbatim>\<open>findHandler\<close>: a \<^verbatim>\<open>CONNECT\<close> request is matched on its path as it is; any
  other request is matched on the cleaned path and redirected to it when it differs
  from the path of the request.
\<close>

datatype 'h routed = Redirected string | Found string 'h | NoRoute

definition URL_Path :: "Request \<Rightarrow> string" where
  "URL_Path r = pathUnescape (req_path r)"

definition findHandler :: "(string \<times> 'h) list \<Rightarrow> Request \<Rightarrow> 'h routed" where
  "findHandler mux r =
     (let escapedPath = req_path r;
          u = Some (URL_Path r, req_query r)
      in if req_method r = ''CONNECT'' then
           (case matchOrRedirect mux escapedPath u of
              (n, Some target) \<Rightarrow> Redirected target
            | (n, None) \<Rightarrow>
                (case fst (matchOrRedirect mux escapedPath None) of
                   None \<Rightarrow> NoRoute
                 | Some (pat, h) \<Rightarrow> Found pat h))
         else
           (let path = cleanPath escapedPath
            in case matchOrRedirect mux path u of
                 (n, Some target) \<Rightarrow> Redirected target
               | (n, None) \<Rightarrow>
                   if path \<noteq> escapedPath then Redirected (url_String path (req_query r))
                   else (case n of None \<Rightarrow> NoRoute | Some (pat, h) \<Rightarrow> Found pat h)))"

text \<open>
  The answers the mux writes itself. \<^verbatim>\<open>http.Redirect(w, r, url, 301)\<close> for a
  target that is a rooted path with an optional query, which is what the mux
  passes: the path is cleaned once more, the target goes into \<^verbatim>\<open>Location\<close>, and a
  \<^verbatim>\<open>GET\<close> gets a short HTML body. The request URI \<^verbatim>\<open>*\<close> gets 400, with
  \<^verbatim>\<open>Connection: close\<close> from HTTP/1.1 on. No match gets 404.
\<close>

definition Redirect_301 :: "Request \<Rightarrow> string \<Rightarrow> Response" where
  "Redirect_301 r url =
     (let cut = (case IndexByte url (CHR ''?'') of None \<Rightarrow> length url | Some k \<Rightarrow> k);
          upath = take cut url;
          query = drop cut url;
          cleaned = path_Clean upath;
          target = (if HasSuffix_slash upath \<and> \<not> HasSuffix_slash cleaned then cleaned @ ''/''
                    else cleaned) @ query
      in \<lparr>resp_status = StatusMovedPermanently,
          resp_header =
            [(''Location'', hexEscapeNonASCII target)]
            @ (if req_method r = ''GET'' \<or> req_method r = ''HEAD''
               then [(''Content-Type'', ''text/html; charset=utf-8'')] else []),
          resp_body =
            (if req_method r = ''GET''
             then ''<a href='' @ quoted (htmlEscape target) @ ''>Moved Permanently</a>.''
                  @ [CHR 0x0A, CHR 0x0A]
             else [])\<rparr>)"

definition ProtoAtLeast :: "Request \<Rightarrow> nat \<Rightarrow> nat \<Rightarrow> bool" where
  "ProtoAtLeast r major minor =
     (fst (req_proto r) > major \<or> (fst (req_proto r) = major \<and> snd (req_proto r) \<ge> minor))"

definition BadRequest_star :: "Request \<Rightarrow> Response" where
  "BadRequest_star r =
     \<lparr>resp_status = StatusBadRequest,
      resp_header = (if ProtoAtLeast r 1 1 then [(''Connection'', ''close'')] else []),
      resp_body = []\<rparr>"

definition NotFound :: Response where
  "NotFound = http_Error ''404 page not found'' StatusNotFound"

text \<open>
  \<^verbatim>\<open>ServeMux.ServeHTTP\<close>. The request URI is \<^verbatim>\<open>*\<close> exactly when the path is.
\<close>

definition ServeHTTP :: "'st ServeMux \<Rightarrow> 'st Handler" where
  "ServeHTTP mux r st =
     (if req_path r = ''*'' then (BadRequest_star r, st)
      else case findHandler mux r of
             Redirected target \<Rightarrow> (Redirect_301 r target, st)
           | Found pat h \<Rightarrow> h r st
           | NoRoute \<Rightarrow> (NotFound, st))"

text \<open>
  The mux of \<^verbatim>\<open>main\<close>. \<open>handler\<close> is the streamable HTTP handler of the MCP SDK
  built over \<^verbatim>\<open>getServer\<close>; it is wrapped by the middleware and registered under
  \<^verbatim>\<open>/\<close>, the health check under \<^verbatim>\<open>/health\<close>.
\<close>

definition main_mux :: "Config \<Rightarrow> 'st Handler \<Rightarrow> 'st ServeMux" where
  "main_mux cfg handler =
     (let authHandler = NewAuthMiddleware (MCPAccessToken cfg) handler;
          mux0 = NewServeMux;
          mux1 = Handle mux0 ''/'' authHandler;
          mux2 = Handle mux1 ''/health'' healthCheckHandler
      in mux2)"

section \<open>Example inputs\<close>

definition example_cfg :: Config where
  "example_cfg =
     \<lparr>PortainerURL = ''http://portainer:9000'',
      PortainerAPIToken = ''ptr_abc'',
      MCPAccessToken = ''s3cret'',
      MCPPort = 8080,
      MCPToolsFile = ''/config/tools.yaml'',
      DisableVersionCheck = False,
      ReadOnlyMode = True,
      MCPBinaryPath = ''/app/portainer-mcp''\<rparr>"

definition example_request :: "string \<Rightarrow> (string \<times> string list) list \<Rightarrow> Request" where
  "example_request p hs =
     \<lparr>req_method = ''POST'', req_proto = (1, 1), req_path = p, req_query = [],
      req_header = map_of hs, req_body = ''{}''\<rparr>"

text \<open>A downstream handler that counts the requests it has served.\<close>

definition counting_handler :: "nat Handler" where
  "counting_handler r n =
     (\<lparr>resp_status = StatusOK, resp_header = [], resp_body = ''served''\<rparr>, Suc n)"

definition empty_os :: OS where
  "empty_os =
     \<lparr>executables = [], path_dirs = [''/usr/local/bin'', ''/usr/bin'', ''/bin''],
      pipe_ok = True, running = []\<rparr>"

definition example_env :: Env where
  "example_env =
     map_of [(''PORTAINER_API_TOKEN'', ''ptr_abc''), (''MCP_ACCESS_TOKEN'', ''s3cret''),
             (''MCP_PORT'', ''80a''), (''READ_ONLY_MODE'', ''yes''),
             (''DISABLE_VERSION_CHECK'', ''2'')]"

definition installed_os :: OS where
  "installed_os =
     \<lparr>executables = [''/app/portainer-mcp''],
      path_dirs = [''/usr/local/bin'', ''/usr/bin'', ''/bin''],
      pipe_ok = True, running = []\<rparr>"

definition tokenless_env :: Env where
  "tokenless_env = map_of [(''PORTAINER_API_TOKEN'', ''ptr_abc''), (''MCP_ACCESS_TOKEN'', '''')]"

section \<open>Properties\<close>

subsection \<open>Splitting the header\<close>

lemma IndexByte_None_iff: "IndexByte s c = None \<longleftrightarrow> c \<notin> set s"
  by (induction s) auto

lemma IndexByte_Some_split:
  "IndexByte s c = Some m \<Longrightarrow> s = take m s @ c # drop (Suc m) s \<and> c \<notin> set (take m s)"
proof (induction s arbitrary: m)
  case Nil
  then show ?case by simp
next
  case (Cons x xs)
  show ?case
  proof (cases "x = c")
    case True
    with Cons.prems show ?thesis by simp
  next
    case False
    with Cons.prems obtain k where k: "IndexByte xs c = Some k" "m = Suc k"
      by auto
    from Cons.IH [OF k(1)] False k(2) show ?thesis by simp
  qed
qed

lemma IndexByte_append_fresh:
  "c \<notin> set p \<Longrightarrow> IndexByte (p @ c # t) c = Some (length p)"
  by (induction p) auto

lemma SplitN_two_eq:
  "SplitN s c 2 = [a, b] \<longleftrightarrow> s = a @ c # b \<and> c \<notin> set a"
proof
  assume h: "SplitN s c 2 = [a, b]"
  have two: "(2::nat) = Suc (Suc 0)" by simp
  show "s = a @ c # b \<and> c \<notin> set a"
  proof (cases "IndexByte s c")
    case None
    with h show ?thesis by (simp add: two)
  next
    case (Some m)
    with h have ab: "a = take m s" "b = drop (Suc m) s" by (simp_all add: two)
    from IndexByte_Some_split [OF Some] ab show ?thesis by simp
  qed
next
  assume h: "s = a @ c # b \<and> c \<notin> set a"
  have two: "(2::nat) = Suc (Suc 0)" by simp
  from h have "IndexByte s c = Some (length a)"
    using IndexByte_append_fresh [of c a b] by simp
  with h show "SplitN s c 2 = [a, b]" by (simp add: two)
qed

lemma bearer_split:
  "SplitN h (CHR '' '') 2 = [''Bearer'', t] \<longleftrightarrow> h = ''Bearer '' @ t"
  using SplitN_two_eq [of h "CHR '' ''" "''Bearer''" t] by simp

lemma two_parts: "length xs = 2 \<and> xs ! 0 = a \<and> xs ! 1 = b \<longleftrightarrow> xs = [a, b]"
proof
  assume h: "length xs = 2 \<and> xs ! 0 = a \<and> xs ! 1 = b"
  then obtain x y where "xs = [x, y]"
    by (cases xs; cases "tl xs"; auto)
  with h show "xs = [a, b]" by simp
qed auto

lemma auth_check_iff:
  "(h \<noteq> [] \<and> \<not> (length (SplitN h (CHR '' '') 2) \<noteq> 2 \<or> SplitN h (CHR '' '') 2 ! 0 \<noteq> ''Bearer'')
      \<and> \<not> SplitN h (CHR '' '') 2 ! 1 \<noteq> tok)
   \<longleftrightarrow> h = ''Bearer '' @ tok"
proof -
  have "(length (SplitN h (CHR '' '') 2) = 2 \<and> SplitN h (CHR '' '') 2 ! 0 = ''Bearer''
           \<and> SplitN h (CHR '' '') 2 ! 1 = tok) \<longleftrightarrow> h = ''Bearer '' @ tok"
    unfolding two_parts bearer_split ..
  then show ?thesis by auto
qed

lemma format_check_iff:
  "(length (SplitN h (CHR '' '') 2) \<noteq> 2 \<or> SplitN h (CHR '' '') 2 ! 0 \<noteq> ''Bearer'')
   \<longleftrightarrow> take 7 h \<noteq> ''Bearer ''"
proof -
  have "(length (SplitN h (CHR '' '') 2) = 2 \<and> SplitN h (CHR '' '') 2 ! 0 = ''Bearer'')
        \<longleftrightarrow> take 7 h = ''Bearer ''"
  proof
    assume a: "length (SplitN h (CHR '' '') 2) = 2 \<and> SplitN h (CHR '' '') 2 ! 0 = ''Bearer''"
    then have "SplitN h (CHR '' '') 2 = [''Bearer'', SplitN h (CHR '' '') 2 ! 1]"
      using two_parts [of "SplitN h (CHR '' '') 2" "''Bearer''" "SplitN h (CHR '' '') 2 ! 1"]
      by simp
    then have "h = ''Bearer '' @ SplitN h (CHR '' '') 2 ! 1"
      by (simp only: bearer_split)
    then have "take 7 h = take 7 (''Bearer '' @ SplitN h (CHR '' '') 2 ! 1)" by simp
    then show "take 7 h = ''Bearer ''" by simp
  next
    assume "take 7 h = ''Bearer ''"
    then have "h = ''Bearer '' @ drop 7 h"
      by (metis append_take_drop_id)
    then have "SplitN h (CHR '' '') 2 = [''Bearer'', drop 7 h]"
      by (simp only: bearer_split)
    then show "length (SplitN h (CHR '' '') 2) = 2 \<and> SplitN h (CHR '' '') 2 ! 0 = ''Bearer''"
      by simp
  qed
  then show ?thesis by blast
qed

lemma NewAuthMiddleware_pass:
  assumes "Header_Get (req_header r) ''Authorization'' = ''Bearer '' @ tok"
  shows "NewAuthMiddleware tok next r st = next r st"
proof -
  let ?h = "Header_Get (req_header r) ''Authorization''"
  from assms have "?h \<noteq> [] \<and> \<not> (length (SplitN ?h (CHR '' '') 2) \<noteq> 2 \<or> SplitN ?h (CHR '' '') 2 ! 0 \<noteq> ''Bearer'')
      \<and> \<not> SplitN ?h (CHR '' '') 2 ! 1 \<noteq> tok"
    by (simp only: auth_check_iff)
  then show ?thesis
    unfolding NewAuthMiddleware_def Let_def by simp
qed

lemma NewAuthMiddleware_reject:
  assumes "Header_Get (req_header r) ''Authorization'' \<noteq> ''Bearer '' @ tok"
  shows "NewAuthMiddleware tok next r st =
           (http_Error
              (error_json
                 (if Header_Get (req_header r) ''Authorization'' = [] then
                    ''missing authorization header''
                  else if take 7 (Header_Get (req_header r) ''Authorization'') \<noteq> ''Bearer '' then
                    ''invalid authorization format''
                  else ''invalid token''))
              StatusUnauthorized, st)"
proof -
  let ?h = "Header_Get (req_header r) ''Authorization''"
  let ?p = "SplitN ?h (CHR '' '') 2"
  show ?thesis
  proof (cases "?h = []")
    case True
    then show ?thesis unfolding NewAuthMiddleware_def Let_def by simp
  next
    case ne: False
    show ?thesis
    proof (cases "length ?p \<noteq> 2 \<or> ?p ! 0 \<noteq> ''Bearer''")
      case True
      moreover from True have "take 7 ?h \<noteq> ''Bearer ''" using format_check_iff [of ?h] by blast
      ultimately show ?thesis using ne unfolding NewAuthMiddleware_def Let_def by simp
    next
      case fmt: False
      then have t7: "take 7 ?h = ''Bearer ''" using format_check_iff [of ?h] by blast
      from assms ne fmt have "?p ! 1 \<noteq> tok" using auth_check_iff [of ?h tok] by blast
      with ne fmt t7 show ?thesis unfolding NewAuthMiddleware_def Let_def by simp
    qed
  qed
qed

lemma logged_pass:
  "NewAuthMiddleware tok (logged next) r (log, st) = logged next r (log, st)
   \<Longrightarrow> fst (snd (NewAuthMiddleware tok (logged next) r (log, st))) = log @ [r]"
  by (simp add: logged_def split: prod.splits)

subsection \<open>The middleware forwards exactly the bearer of the token\<close>

text \<open>
  Claim C1. The wrapped handler receives the request (its log grows by that request)
  if and only if the \<^verbatim>\<open>Authorization\<close> header is exactly \<^verbatim>\<open>Bearer\<close>, one space, and
  the expected token, the keyword compared byte for byte; otherwise the log is as it
  was. When the header is right, the middleware answers as the wrapped handler does.
\<close>

theorem auth_forwards_iff_bearer:
  "(fst (snd (NewAuthMiddleware tok (logged next) r (log, st))) = log @ [r]
      \<longleftrightarrow> Header_Get (req_header r) ''Authorization'' = ''Bearer '' @ tok)
   \<and> (fst (snd (NewAuthMiddleware tok (logged next) r (log, st))) = log
      \<longleftrightarrow> Header_Get (req_header r) ''Authorization'' \<noteq> ''Bearer '' @ tok)
   \<and> (Header_Get (req_header r) ''Authorization'' = ''Bearer '' @ tok
      \<longrightarrow> NewAuthMiddleware tok next r st = next r st)"
proof (cases "Header_Get (req_header r) ''Authorization'' = ''Bearer '' @ tok")
  case True
  from NewAuthMiddleware_pass [OF True] have "fst (snd (NewAuthMiddleware tok (logged next) r (log, st))) = log @ [r]"
    by (rule logged_pass)
  with True NewAuthMiddleware_pass [OF True, of "next" st] show ?thesis by simp
next
  case False
  from NewAuthMiddleware_reject [OF False, of "logged next" "(log, st)"]
  have "fst (snd (NewAuthMiddleware tok (logged next) r (log, st))) = log" by simp
  with False show ?thesis by simp
qed

theorem auth_forwards_iff_bearer_witness:
  "fst (snd (NewAuthMiddleware ''s3cret'' (logged counting_handler)
       (example_request ''/'' [(''Authorization'', [''Bearer s3cret''])]) ([], 0)))
     = [example_request ''/'' [(''Authorization'', [''Bearer s3cret''])]]
   \<and> fst (snd (NewAuthMiddleware ''s3cret'' (logged counting_handler)
       (example_request ''/'' [(''Authorization'', [''bearer s3cret''])]) ([], 0))) = []
   \<and> NewAuthMiddleware ''s3cret'' counting_handler
       (example_request ''/'' [(''Authorization'', [''Bearer s3cret''])]) 0
     = (\<lparr>resp_status = 200, resp_header = [], resp_body = ''served''\<rparr>, 1)"
  using auth_forwards_iff_bearer [of "''s3cret''" counting_handler
          "example_request ''/'' [(''Authorization'', [''Bearer s3cret''])]" "[]" 0]
        auth_forwards_iff_bearer [of "''s3cret''" counting_handler
          "example_request ''/'' [(''Authorization'', [''bearer s3cret''])]" "[]" 0]
  by (simp add: example_request_def Header_Get_def counting_handler_def StatusOK_def)

subsection \<open>Authentication failures\<close>

text \<open>
  Claim C2. When the \<^verbatim>\<open>Authorization\<close> header is not the expected bearer header
  (missing, not of the form \<^verbatim>\<open>Bearer ...\<close>, or carrying another token), the response
  has status 401 and the body is the JSON object with the single field \<^verbatim>\<open>error\<close>
  followed by a newline; the downstream state is returned unchanged and the wrapped
  handler receives nothing.
\<close>

theorem auth_failure_unauthorized:
  assumes "Header_Get (req_header r) ''Authorization'' \<noteq> ''Bearer '' @ tok"
  shows "\<exists>msg. msg = (if Header_Get (req_header r) ''Authorization'' = [] then
                          ''missing authorization header''
                        else if take 7 (Header_Get (req_header r) ''Authorization'') \<noteq> ''Bearer '' then
                          ''invalid authorization format''
                        else ''invalid token'')
           \<and> NewAuthMiddleware tok nxt r st = (http_Error (error_json msg) StatusUnauthorized, st)
           \<and> resp_status (fst (NewAuthMiddleware tok nxt r st)) = 401
           \<and> resp_body (fst (NewAuthMiddleware tok nxt r st))
               = ''{'' @ quoted ''error'' @ '':'' @ quoted msg @ ''}'' @ [CHR 0x0A]
           \<and> snd (NewAuthMiddleware tok nxt r st) = st
           \<and> fst (snd (NewAuthMiddleware tok (logged nxt) r (log, st))) = log"
  using NewAuthMiddleware_reject [OF assms, of nxt st]
        NewAuthMiddleware_reject [OF assms, of "logged nxt" "(log, st)"]
  by (simp add: http_Error_def error_json_def StatusUnauthorized_def)

theorem auth_failure_unauthorized_witness:
  "NewAuthMiddleware ''s3cret'' counting_handler (example_request ''/'' []) 5
     = (http_Error (error_json ''missing authorization header'') 401, 5)
   \<and> NewAuthMiddleware ''s3cret'' counting_handler
        (example_request ''/'' [(''Authorization'', [''Basic s3cret''])]) 5
     = (http_Error (error_json ''invalid authorization format'') 401, 5)
   \<and> NewAuthMiddleware ''s3cret'' counting_handler
        (example_request ''/'' [(''Authorization'', [''Bearer wrong''])]) 5
     = (http_Error (error_json ''invalid token'') 401, 5)"
  using auth_failure_unauthorized [of "example_request ''/'' []" "''s3cret''" counting_handler 5 "[]"]
        auth_failure_unauthorized [of "example_request ''/'' [(''Authorization'', [''Basic s3cret''])]"
          "''s3cret''" counting_handler 5 "[]"]
        auth_failure_unauthorized [of "example_request ''/'' [(''Authorization'', [''Bearer wrong''])]"
          "''s3cret''" counting_handler 5 "[]"]
  by (simp add: example_request_def Header_Get_def StatusUnauthorized_def)

subsection \<open>Routes\<close>

lemma parsePattern_root: "parsePattern ''/'' = ([], True)"
  by (simp add: parsePattern_def)

lemma parsePattern_health: "parsePattern ''/health'' = ([''health''], False)"
  by (simp add: parsePattern_def pathUnescape_def)

lemma mux_match_main:
  "mux_match (main_mux cfg handler) p =
     (if p = [] then None
      else if firstSegment p = (''health'', []) then Some (''/health'', healthCheckHandler)
      else Some (''/'', NewAuthMiddleware (MCPAccessToken cfg) handler))"
  by (auto simp: main_mux_def Handle_def NewServeMux_def pattern_match_def
        parsePattern_root parsePattern_health split: prod.splits)

lemma exactMatch_root:
  "exactMatch (Some (''/'', h)) path \<longleftrightarrow>
     \<not> (path \<noteq> [] \<and> last path \<noteq> CHR ''/'') \<and> Count_slash path = 1"
  by (auto simp: exactMatch_def parsePattern_root)

lemma exactMatch_health: "exactMatch (Some (''/health'', h)) path"
  by (simp add: exactMatch_def parsePattern_health)

lemma IndexByte_less: "IndexByte s c = Some k \<Longrightarrow> k < length s"
  by (induction s arbitrary: k) (auto split: if_splits)

lemma firstSegment_slash_added:
  assumes "p \<noteq> []"
  shows "snd (firstSegment (p @ ''/'')) \<noteq> []"
proof -
  from assms have ne: "p @ ''/'' \<noteq> ''/''" by simp
  have mem: "CHR ''/'' \<in> set (tl (p @ ''/''))" using assms by (cases p) auto
  then obtain k where k: "IndexByte (tl (p @ ''/'')) (CHR ''/'') = Some k"
    using IndexByte_None_iff [of "tl (p @ ''/'')" "CHR ''/''"] by (cases "IndexByte (tl (p @ ''/'')) (CHR ''/'')") auto
  from IndexByte_less [OF k] have "drop k (tl (p @ ''/'')) \<noteq> []" by simp
  with ne k show ?thesis by (simp add: firstSegment_def Let_def)
qed

lemma Count_slash_rooted_added:
  assumes "p \<noteq> []" "hd p = CHR ''/''"
  shows "2 \<le> Count_slash (p @ ''/'')"
  using assms by (cases p) (auto simp: Count_slash_def)

lemma matchOrRedirect_main:
  assumes "p \<noteq> []" "hd p = CHR ''/''"
  shows "matchOrRedirect (main_mux cfg handler) p u = (mux_match (main_mux cfg handler) p, None)"
proof -
  have n2: "mux_match (main_mux cfg handler) (p @ ''/'')
              = Some (''/'', NewAuthMiddleware (MCPAccessToken cfg) handler)"
    using firstSegment_slash_added [OF assms(1)]
    by (auto simp: mux_match_main)
  have "\<not> exactMatch (mux_match (main_mux cfg handler) (p @ ''/'')) (p @ ''/'')"
    using Count_slash_rooted_added [OF assms] unfolding n2 exactMatch_root by simp
  then show ?thesis
    by (simp add: matchOrRedirect_def Let_def split: option.splits)
qed

lemma path_Clean_rooted:
  assumes "p \<noteq> []" "hd p = CHR ''/''"
  shows "path_Clean p \<noteq> [] \<and> hd (path_Clean p) = CHR ''/''"
  using assms by (simp add: path_Clean_def Let_def)

lemma cleanPath_rooted: "cleanPath p \<noteq> [] \<and> hd (cleanPath p) = CHR ''/''"
proof (cases "p = []")
  case True
  then show ?thesis by (simp add: cleanPath_def)
next
  case False
  define p' where "p' = (if hd p \<noteq> CHR ''/'' then ''/'' @ p else p)"
  have r: "p' \<noteq> []" "hd p' = CHR ''/''" using False by (auto simp: p'_def)
  from path_Clean_rooted [OF r] r False show ?thesis
    unfolding cleanPath_def Let_def p'_def [symmetric] by (auto simp: hd_append)
qed



lemma findHandler_main_canonical:
  assumes canon: "cleanPath (req_path r) = req_path r"
  shows "findHandler (main_mux cfg handler) r =
           (if firstSegment (req_path r) = (''health'', [])
            then Found ''/health'' healthCheckHandler
            else Found ''/'' (NewAuthMiddleware (MCPAccessToken cfg) handler))"
proof -
  from cleanPath_rooted [of "req_path r"] canon
  have rooted: "req_path r \<noteq> []" "hd (req_path r) = CHR ''/''" by simp_all
  show ?thesis
    using rooted canon
    by (simp add: findHandler_def Let_def matchOrRedirect_main [OF rooted] mux_match_main)
qed


lemma cleanPath_health: "cleanPath ''/health'' = ''/health''"
  by (simp add: cleanPath_def path_Clean_def Let_def)

lemma firstSegment_health: "firstSegment ''/health'' = (''health'', [])"
  by (simp add: firstSegment_def pathUnescape_def Let_def)

text \<open>
  Claim C3. A request to \<^verbatim>\<open>/health\<close> gets status 200 and the fixed body, whatever its
  headers, whatever the downstream state and the wrapped handler are; the state is
  unchanged and the middleware is not on that route.
\<close>

theorem health_fixed_response:
  assumes "req_path r = ''/health''"
  shows "ServeHTTP (main_mux cfg handler) r st =
           (\<lparr>resp_status = 200, resp_header = [(''Content-Type'', ''application/json'')],
             resp_body = health_body\<rparr>, st)"
proof -
  from assms have canon: "cleanPath (req_path r) = req_path r"
    by (simp add: cleanPath_health)
  from findHandler_main_canonical [OF canon, of cfg handler] assms
  have "findHandler (main_mux cfg handler) r = Found ''/health'' healthCheckHandler"
    by (simp add: firstSegment_health)
  with assms show ?thesis
    by (simp add: ServeHTTP_def healthCheckHandler_def StatusOK_def)
qed

theorem health_fixed_response_witness:
  "ServeHTTP (main_mux example_cfg counting_handler) (example_request ''/health'' []) 3 =
           (\<lparr>resp_status = 200, resp_header = [(''Content-Type'', ''application/json'')],
             resp_body = health_body\<rparr>, 3)"
  using health_fixed_response [of "example_request ''/health'' []" example_cfg counting_handler 3]
  by (simp add: example_request_def)








subsection \<open>The argument vector\<close>

lemma exec_Command_args: "cmd_Args (exec_Command os name arg) = name # arg"
  by (simp add: exec_Command_def Let_def split: prod.splits)

lemma GetPortainerCommand_args:
  "cmd_Args (GetPortainerCommand cfg os) =
     MCPBinaryPath cfg #
       ([''--server'', PortainerURL cfg, ''--api-token'', PortainerAPIToken cfg]
        @ (if MCPToolsFile cfg \<noteq> [] then [''--tools-file'', MCPToolsFile cfg] else [])
        @ (if DisableVersionCheck cfg then [''--disable-version-check''] else [])
        @ (if ReadOnlyMode cfg then [''--read-only''] else []))"
  by (simp add: GetPortainerCommand_def exec_Command_args Let_def)

lemma CreateMCPServer_cmd_eq: "CreateMCPServer_cmd cfg os = GetPortainerCommand cfg os"
  by (simp add: GetPortainerCommand_def CreateMCPServer_cmd_def)

text \<open>
  Claim C4. The argument vector of the command is the program name followed by
  \<^verbatim>\<open>--server\<close>, the URL, \<^verbatim>\<open>--api-token\<close>, the API token, then \<^verbatim>\<open>--tools-file\<close> and
  the path when the tools file is set, \<^verbatim>\<open>--disable-version-check\<close> when that flag is
  set, and \<^verbatim>\<open>--read-only\<close> when read-only mode is set, in this order; both builders
  agree, the vector is the same in every environment, and the per-session factory
  gives the same result for any two requests.
\<close>

theorem argv_from_config_only:
  "cmd_Args (CreateMCPServer_cmd cfg os) =
     MCPBinaryPath cfg #
       ([''--server'', PortainerURL cfg, ''--api-token'', PortainerAPIToken cfg]
        @ (if MCPToolsFile cfg \<noteq> [] then [''--tools-file'', MCPToolsFile cfg] else [])
        @ (if DisableVersionCheck cfg then [''--disable-version-check''] else [])
        @ (if ReadOnlyMode cfg then [''--read-only''] else []))
   \<and> cmd_Args (GetPortainerCommand cfg os) = cmd_Args (CreateMCPServer_cmd cfg os)
   \<and> cmd_Args (CreateMCPServer_cmd cfg os) = cmd_Args (CreateMCPServer_cmd cfg os')
   \<and> getServer cfg req os = getServer cfg req' os"
  using GetPortainerCommand_args [of cfg os] GetPortainerCommand_args [of cfg os']
  by (simp add: CreateMCPServer_cmd_eq getServer_def CreateMCPServer_def Let_def)

theorem argv_from_config_only_witness:
  "cmd_Args (CreateMCPServer_cmd example_cfg installed_os) =
     [''/app/portainer-mcp'', ''--server'', ''http://portainer:9000'', ''--api-token'', ''ptr_abc'',
      ''--tools-file'', ''/config/tools.yaml'', ''--read-only'']"
  using argv_from_config_only [of example_cfg installed_os]
  by (simp add: example_cfg_def)

subsection \<open>What creating the server does to the subprocess\<close>

lemma CreateMCPServer_result:
  "CreateMCPServer cfg os = (Inr (mcp_NewServer ''portainer-mcp-wrapper'' ''1.0.0''), os)"
  by (simp add: CreateMCPServer_def Let_def)

lemma getServer_result:
  "getServer cfg req os = (Some (mcp_NewServer ''portainer-mcp-wrapper'' ''1.0.0''), os)"
  by (simp add: getServer_def CreateMCPServer_result)

lemma example_binary_not_base: "filepath_Base ''/app/portainer-mcp'' \<noteq> ''/app/portainer-mcp''"
  by (simp add: filepath_Base_def Let_def)

lemma example_command:
  "GetPortainerCommand example_cfg os =
     \<lparr>cmd_Path = ''/app/portainer-mcp'',
      cmd_Args = [''/app/portainer-mcp'', ''--server'', ''http://portainer:9000'',
                  ''--api-token'', ''ptr_abc'', ''--tools-file'', ''/config/tools.yaml'',
                  ''--read-only''],
      cmd_Err = None\<rparr>"
  by (simp add: GetPortainerCommand_def exec_Command_def Let_def example_cfg_def
        example_binary_not_base)

lemma example_bridge_installed:
  "NewPortainerMCPBridge example_cfg installed_os =
     (Inr (GetPortainerCommand example_cfg installed_os),
      installed_os\<lparr>running := [GetPortainerCommand example_cfg installed_os]\<rparr>)"
  unfolding example_command
  by (simp add: NewPortainerMCPBridge_def exec_Command_def Let_def example_cfg_def
        example_binary_not_base Cmd_Pipe_def Cmd_Start_def installed_os_def)

lemma example_bridge_missing:
  "NewPortainerMCPBridge example_cfg empty_os =
     (Inl (Wrapped ''failed to start portainer-mcp: '' (StartFailed ''/app/portainer-mcp'')),
      empty_os)"
  by (simp add: NewPortainerMCPBridge_def exec_Command_def Let_def example_cfg_def
        example_binary_not_base Cmd_Pipe_def Cmd_Start_def empty_os_def)

text \<open>
  Claim C5. Creating the per-session MCP server is meant to start the configured
  executable and relay the session to it. On the example configuration, with the
  binary installed, \<^verbatim>\<open>CreateMCPServer\<close> returns a server and leaves the process table
  empty, where the constructor of the design notes starts the command.
\<close>

theorem CreateMCPServer_starts_nothing:
  "CreateMCPServer example_cfg installed_os =
     (Inr \<lparr>impl_Name = ''portainer-mcp-wrapper'', impl_Version = ''1.0.0''\<rparr>, installed_os)
   \<and> running (snd (getServer example_cfg (example_request ''/'' [(''Authorization'', [''Bearer s3cret''])]) installed_os)) = []
   \<and> running (snd (NewPortainerMCPBridge example_cfg installed_os))
       = [GetPortainerCommand example_cfg installed_os]"
proof -
  have "running (snd (NewPortainerMCPBridge example_cfg installed_os))
       = [GetPortainerCommand example_cfg installed_os]"
    by (simp add: example_bridge_installed)
  then show ?thesis
    by (simp add: CreateMCPServer_result getServer_result mcp_NewServer_def installed_os_def)
qed

text \<open>
  Claim C6. A launch that cannot succeed is meant to fail with an error and give no
  handle. With the configured binary not installed, \<^verbatim>\<open>CreateMCPServer\<close> returns a
  server and no error, where the constructor of the design notes returns an error.
\<close>

theorem CreateMCPServer_never_fails:
  "MCPBinaryPath example_cfg \<notin> set (executables empty_os)
   \<and> fst (CreateMCPServer example_cfg empty_os) =
     Inr \<lparr>impl_Name = ''portainer-mcp-wrapper'', impl_Version = ''1.0.0''\<rparr>
   \<and> fst (getServer example_cfg (example_request ''/'' [(''Authorization'', [''Bearer s3cret''])]) empty_os) =
     Some \<lparr>impl_Name = ''portainer-mcp-wrapper'', impl_Version = ''1.0.0''\<rparr>
   \<and> isl (fst (NewPortainerMCPBridge example_cfg empty_os))"
proof -
  have "isl (fst (NewPortainerMCPBridge example_cfg empty_os))"
    by (simp add: example_bridge_missing)
  then show ?thesis
    by (simp add: CreateMCPServer_result getServer_result mcp_NewServer_def empty_os_def
          example_cfg_def)
qed

subsection \<open>Loading the configuration\<close>

lemma Getenv_empty_iff: "Getenv env key = [] \<longleftrightarrow> unset_or_empty env key"
  by (auto simp: Getenv_def unset_or_empty_def split: option.splits)

lemma Atoi_empty: "Atoi [] = None"
  by (simp add: Atoi_def)

lemma ParseBool_empty: "ParseBool [] = None"
  by (simp add: ParseBool_def)

lemma getEnvAsIntOrDefault_eq:
  "getEnvAsIntOrDefault env key d = (case Atoi (Getenv env key) of None \<Rightarrow> d | Some v \<Rightarrow> v)"
  by (simp add: getEnvAsIntOrDefault_def Let_def Atoi_empty)

lemma getEnvAsBoolOrDefault_eq:
  "getEnvAsBoolOrDefault env key d = (case ParseBool (Getenv env key) of None \<Rightarrow> d | Some v \<Rightarrow> v)"
  by (simp add: getEnvAsBoolOrDefault_def Let_def ParseBool_empty)

lemma LoadConfig_Inl_iff:
  "(\<exists>e. LoadConfig env = Inl e) \<longleftrightarrow>
     unset_or_empty env ''PORTAINER_API_TOKEN'' \<or> unset_or_empty env ''MCP_ACCESS_TOKEN''"
  by (simp add: LoadConfig_def Let_def Getenv_empty_iff)

lemma LoadConfig_Inr:
  assumes "\<not> unset_or_empty env ''PORTAINER_API_TOKEN''" "\<not> unset_or_empty env ''MCP_ACCESS_TOKEN''"
  shows "LoadConfig env =
     Inr \<lparr>PortainerURL = (if unset_or_empty env ''PORTAINER_URL'' then ''http://portainer:9000''
                          else Getenv env ''PORTAINER_URL''),
         PortainerAPIToken = Getenv env ''PORTAINER_API_TOKEN'',
         MCPAccessToken = Getenv env ''MCP_ACCESS_TOKEN'',
         MCPPort = (case Atoi (Getenv env ''MCP_PORT'') of None \<Rightarrow> 8080 | Some v \<Rightarrow> v),
         MCPToolsFile = Getenv env ''MCP_TOOLS_FILE'',
         DisableVersionCheck =
           (case ParseBool (Getenv env ''DISABLE_VERSION_CHECK'') of None \<Rightarrow> False | Some b \<Rightarrow> b),
         ReadOnlyMode =
           (case ParseBool (Getenv env ''READ_ONLY_MODE'') of None \<Rightarrow> False | Some b \<Rightarrow> b),
         MCPBinaryPath = (if unset_or_empty env ''MCP_BINARY_PATH'' then ''/app/portainer-mcp''
                          else Getenv env ''MCP_BINARY_PATH'')\<rparr>"
  using assms
  by (simp add: LoadConfig_def Let_def Getenv_empty_iff getEnvAsIntOrDefault_eq
        getEnvAsBoolOrDefault_eq getEnvOrDefault_def)

text \<open>
  Claim C9. \<^verbatim>\<open>LoadConfig\<close> returns an error exactly when \<^verbatim>\<open>PORTAINER_API_TOKEN\<close> or
  \<^verbatim>\<open>MCP_ACCESS_TOKEN\<close> is unset or empty. Otherwise it returns a configuration in
  which an unset or unparsable \<^verbatim>\<open>MCP_PORT\<close> is 8080, an unset or unparsable
  \<^verbatim>\<open>DISABLE_VERSION_CHECK\<close> or \<^verbatim>\<open>READ_ONLY_MODE\<close> is false, and an unset URL, binary
  path or tools file is its default.
\<close>

theorem LoadConfig_fails_only_without_tokens:
  "((\<exists>e. LoadConfig env = Inl e) \<longleftrightarrow>
      unset_or_empty env ''PORTAINER_API_TOKEN'' \<or> unset_or_empty env ''MCP_ACCESS_TOKEN'')
   \<and> (\<not> unset_or_empty env ''PORTAINER_API_TOKEN'' \<and> \<not> unset_or_empty env ''MCP_ACCESS_TOKEN'' \<longrightarrow>
        (\<exists>cfg. LoadConfig env = Inr cfg
           \<and> (unset_or_empty env ''MCP_PORT'' \<or> Atoi (Getenv env ''MCP_PORT'') = None
                \<longrightarrow> MCPPort cfg = 8080)
           \<and> (unset_or_empty env ''DISABLE_VERSION_CHECK''
                \<or> ParseBool (Getenv env ''DISABLE_VERSION_CHECK'') = None
                \<longrightarrow> DisableVersionCheck cfg = False)
           \<and> (unset_or_empty env ''READ_ONLY_MODE'' \<or> ParseBool (Getenv env ''READ_ONLY_MODE'') = None
                \<longrightarrow> ReadOnlyMode cfg = False)
           \<and> (unset_or_empty env ''PORTAINER_URL'' \<longrightarrow> PortainerURL cfg = ''http://portainer:9000'')
           \<and> (unset_or_empty env ''MCP_BINARY_PATH'' \<longrightarrow> MCPBinaryPath cfg = ''/app/portainer-mcp'')
           \<and> (unset_or_empty env ''MCP_TOOLS_FILE'' \<longrightarrow> MCPToolsFile cfg = [])))"
proof (intro conjI impI)
  show "(\<exists>e. LoadConfig env = Inl e) \<longleftrightarrow>
      unset_or_empty env ''PORTAINER_API_TOKEN'' \<or> unset_or_empty env ''MCP_ACCESS_TOKEN''"
    by (rule LoadConfig_Inl_iff)
next
  assume a: "\<not> unset_or_empty env ''PORTAINER_API_TOKEN'' \<and> \<not> unset_or_empty env ''MCP_ACCESS_TOKEN''"
  then have eq: "LoadConfig env = Inr \<lparr>PortainerURL = (if unset_or_empty env ''PORTAINER_URL'' then ''http://portainer:9000''
                          else Getenv env ''PORTAINER_URL''),
         PortainerAPIToken = Getenv env ''PORTAINER_API_TOKEN'',
         MCPAccessToken = Getenv env ''MCP_ACCESS_TOKEN'',
         MCPPort = (case Atoi (Getenv env ''MCP_PORT'') of None \<Rightarrow> 8080 | Some v \<Rightarrow> v),
         MCPToolsFile = Getenv env ''MCP_TOOLS_FILE'',
         DisableVersionCheck =
           (case ParseBool (Getenv env ''DISABLE_VERSION_CHECK'') of None \<Rightarrow> False | Some b \<Rightarrow> b),
         ReadOnlyMode =
           (case ParseBool (Getenv env ''READ_ONLY_MODE'') of None \<Rightarrow> False | Some b \<Rightarrow> b),
         MCPBinaryPath = (if unset_or_empty env ''MCP_BINARY_PATH'' then ''/app/portainer-mcp''
                          else Getenv env ''MCP_BINARY_PATH'')\<rparr>"
    using LoadConfig_Inr [of env] by simp
  have e: "\<And>k. unset_or_empty env k \<Longrightarrow> Getenv env k = []"
    by (simp add: Getenv_empty_iff)
  show "\<exists>cfg. LoadConfig env = Inr cfg
           \<and> (unset_or_empty env ''MCP_PORT'' \<or> Atoi (Getenv env ''MCP_PORT'') = None
                \<longrightarrow> MCPPort cfg = 8080)
           \<and> (unset_or_empty env ''DISABLE_VERSION_CHECK''
                \<or> ParseBool (Getenv env ''DISABLE_VERSION_CHECK'') = None
                \<longrightarrow> DisableVersionCheck cfg = False)
           \<and> (unset_or_empty env ''READ_ONLY_MODE'' \<or> ParseBool (Getenv env ''READ_ONLY_MODE'') = None
                \<longrightarrow> ReadOnlyMode cfg = False)
           \<and> (unset_or_empty env ''PORTAINER_URL'' \<longrightarrow> PortainerURL cfg = ''http://portainer:9000'')
           \<and> (unset_or_empty env ''MCP_BINARY_PATH'' \<longrightarrow> MCPBinaryPath cfg = ''/app/portainer-mcp'')
           \<and> (unset_or_empty env ''MCP_TOOLS_FILE'' \<longrightarrow> MCPToolsFile cfg = [])"
    unfolding eq by (auto simp: e Atoi_empty ParseBool_empty)
qed

lemma LoadConfig_paths_set:
  assumes "LoadConfig env = Inr cfg"
  shows "MCPBinaryPath cfg \<noteq> [] \<and> PortainerURL cfg \<noteq> []
         \<and> PortainerAPIToken cfg \<noteq> [] \<and> MCPAccessToken cfg \<noteq> []"
  using assms
  by (auto simp: LoadConfig_def Let_def getEnvOrDefault_def split: if_splits)

lemma example_env_unparsable:
  "Atoi ''80a'' = None" "ParseBool ''yes'' = None" "ParseBool ''2'' = None"
  by (simp_all add: Atoi_def ParseBool_def digit_val_def Let_def)

lemma LoadConfig_example_env:
  "LoadConfig example_env =
     Inr \<lparr>PortainerURL = ''http://portainer:9000'', PortainerAPIToken = ''ptr_abc'',
          MCPAccessToken = ''s3cret'', MCPPort = 8080, MCPToolsFile = [],
          DisableVersionCheck = False, ReadOnlyMode = False,
          MCPBinaryPath = ''/app/portainer-mcp''\<rparr>"
  by (simp add: LoadConfig_def Let_def Getenv_def example_env_def getEnvOrDefault_def
        getEnvAsIntOrDefault_def getEnvAsBoolOrDefault_def example_env_unparsable)

lemma LoadConfig_tokenless_env:
  "LoadConfig tokenless_env = Inl ''MCP_ACCESS_TOKEN is required''"
  by (simp add: LoadConfig_def Let_def Getenv_def tokenless_env_def)

theorem LoadConfig_fails_only_without_tokens_witness:
  "LoadConfig example_env =
     Inr \<lparr>PortainerURL = ''http://portainer:9000'', PortainerAPIToken = ''ptr_abc'',
          MCPAccessToken = ''s3cret'', MCPPort = 8080, MCPToolsFile = [],
          DisableVersionCheck = False, ReadOnlyMode = False,
          MCPBinaryPath = ''/app/portainer-mcp''\<rparr>
   \<and> LoadConfig tokenless_env = Inl ''MCP_ACCESS_TOKEN is required''
   \<and> \<not> unset_or_empty example_env ''PORTAINER_API_TOKEN''
   \<and> \<not> unset_or_empty example_env ''MCP_ACCESS_TOKEN''
   \<and> Atoi (Getenv example_env ''MCP_PORT'') = None
   \<and> unset_or_empty tokenless_env ''MCP_ACCESS_TOKEN''"
proof -
  have u: "\<not> unset_or_empty example_env ''PORTAINER_API_TOKEN''"
    "\<not> unset_or_empty example_env ''MCP_ACCESS_TOKEN''"
    by (simp_all add: unset_or_empty_def example_env_def)
  have t: "unset_or_empty tokenless_env ''MCP_ACCESS_TOKEN''"
    by (simp add: unset_or_empty_def tokenless_env_def)
  have g: "Atoi (Getenv example_env ''MCP_PORT'') = None"
    by (simp add: Getenv_def example_env_def example_env_unparsable)
  from LoadConfig_fails_only_without_tokens [of example_env] u
  have "\<exists>cfg. LoadConfig example_env = Inr cfg" by blast
  moreover from LoadConfig_fails_only_without_tokens [of tokenless_env] t
  have "\<exists>e. LoadConfig tokenless_env = Inl e" by blast
  ultimately show ?thesis
    using u t g by (simp add: LoadConfig_example_env LoadConfig_tokenless_env)
qed

end
